theory Spec2Isabelle
  imports Main
begin

section \<open>The ShopSavvy Data API client (src/dist/index.mjs)\<close>

text \<open>
  A shallow embedding of the class \<open>ShopSavvyDataAPI\<close>. JavaScript strings
  are modelled as \<open>string\<close> (the UTF-8 bytes of the text), \<open>undefined\<close> as
  \<open>None\<close>, a thrown or rejected \<open>Error\<close> as a value of \<open>js_error\<close>, and
  the host (timers, the network) as an explicit \<open>runtime\<close> record that every
  operation takes and returns.
\<close>

subsection \<open>JavaScript values and errors\<close>

text \<open>
  An error object: its \<open>name\<close> (\<open>Error\<close>, \<open>TypeError\<close>, \<open>AbortError\<close>, ...) and
  its \<open>message\<close>. \<open>new Error(m)\<close> has the name \<open>Error\<close>.
\<close>

datatype js_error = JsError (name: string) (message: string)

definition Error :: "string \<Rightarrow> js_error" where
  "Error m = JsError ''Error'' m"

text \<open>
  Decimal rendering of a number, as a template literal or \<open>String(n)\<close> prints an
  integer. Numbers are modelled as integers, and the rendering is the one
  JavaScript gives for an integer of magnitude below \<open>10^21\<close>; from there on
  JavaScript prints an exponent, which is not modelled. A status code is far
  below that bound, and the statement about the timeout message bounds the
  timeout.
\<close>

definition digit_char :: "nat \<Rightarrow> char" where
  "digit_char d = char_of (48 + d)"

fun nat_to_string :: "nat \<Rightarrow> string" where
  "nat_to_string n =
     (if n < 10 then [digit_char n]
      else nat_to_string (n div 10) @ [digit_char (n mod 10)])"

declare nat_to_string.simps [simp del]

definition Number_toString :: "int \<Rightarrow> string" where
  "Number_toString i =
     (if i < 0 then CHR ''-'' # nat_to_string (nat (- i)) else nat_to_string (nat i))"

subsection \<open>The key pattern\<close>

text \<open>
  The regular expression literal of the constructor,
  \<^verbatim>\<open>/^ss_(live|test)_[a-zA-Z0-9]+$/\<close>, as a value of a small regular-expression
  type, with a backtracking matcher: \<open>rx_match r s\<close> lists what is left of \<open>s\<close>
  after each way of matching \<open>r\<close> at its start. The anchors \<open>^\<close> and \<open>$\<close> (no
  \<open>m\<close> flag) make \<open>rx_test\<close> ask for a match of the whole string.
\<close>

datatype rx =
    Lit string
  | Alt rx rx
  | Seq rx rx
  | PlusClass "(char \<times> char) list"

definition in_range :: "char \<times> char \<Rightarrow> char \<Rightarrow> bool" where
  "in_range r c = ((of_char (fst r) :: nat) \<le> of_char c \<and> (of_char c :: nat) \<le> of_char (snd r))"

definition in_class :: "(char \<times> char) list \<Rightarrow> char \<Rightarrow> bool" where
  "in_class cs c = list_ex (\<lambda>r. in_range r c) cs"

fun strip_prefix :: "string \<Rightarrow> string \<Rightarrow> string option" where
  "strip_prefix [] t = Some t"
| "strip_prefix (p # ps) [] = None"
| "strip_prefix (p # ps) (c # t) = (if p = c then strip_prefix ps t else None)"

fun plus_class :: "(char \<times> char) list \<Rightarrow> string \<Rightarrow> string list" where
  "plus_class cs [] = []"
| "plus_class cs (c # t) = (if in_class cs c then t # plus_class cs t else [])"

fun rx_match :: "rx \<Rightarrow> string \<Rightarrow> string list" where
  "rx_match (Lit p) s = (case strip_prefix p s of None \<Rightarrow> [] | Some t \<Rightarrow> [t])"
| "rx_match (Alt a b) s = rx_match a s @ rx_match b s"
| "rx_match (Seq a b) s = concat (map (rx_match b) (rx_match a s))"
| "rx_match (PlusClass cs) s = plus_class cs s"

definition rx_test :: "rx \<Rightarrow> string \<Rightarrow> bool" where
  "rx_test r s = ([] \<in> set (rx_match r s))"

definition apiKey_pattern :: rx where
  "apiKey_pattern =
     Seq (Lit ''ss_'')
       (Seq (Alt (Lit ''live'') (Lit ''test''))
         (Seq (Lit ''_'')
           (PlusClass [(CHR ''a'', CHR ''z''), (CHR ''A'', CHR ''Z''), (CHR ''0'', CHR ''9'')])))"

text \<open>
  The pattern in the words of the specification, \<open>ss_(live|test)_<alphanumeric>\<close>:
  the prefix \<open>ss_\<close>, one of the two environment names, an underscore, and a
  non-empty run of ASCII letters and digits.
\<close>

definition alphanumeric :: "char \<Rightarrow> bool" where
  "alphanumeric c =
     (let n = (of_char c :: nat) in (97 \<le> n \<and> n \<le> 122) \<or> (65 \<le> n \<and> n \<le> 90) \<or> (48 \<le> n \<and> n \<le> 57))"

definition key_format :: "string \<Rightarrow> bool" where
  "key_format k =
     (\<exists>e rest. (e = ''live'' \<or> e = ''test'') \<and> rest \<noteq> [] \<and> list_all alphanumeric rest
        \<and> k = ''ss_'' @ e @ ''_'' @ rest)"

subsection \<open>Configuration, client and host state\<close>

text \<open>\<open>ShopSavvyConfig\<close>: an absent field is \<open>None\<close>.\<close>

record config =
  apiKey :: "string option"
  baseUrl :: "string option"
  timeout :: "int option"

text \<open>The instance fields \<open>this.apiKey\<close>, \<open>this.baseUrl\<close>, \<open>this.timeout\<close>.\<close>

record client =
  this_apiKey :: string
  this_baseUrl :: string
  this_timeout :: int

text \<open>One call of \<open>fetch(url, init)\<close>; \<open>signal\<close> names the timer whose callback aborts it.\<close>

record fetch_call =
  url :: string
  http_method :: "string option"
  headers :: "(string \<times> string) list"
  body :: "string option"
  signal :: nat

text \<open>
  The host: the timers that are pending (set and neither fired nor cleared), each
  with its delay in milliseconds; the next timer identifier; the timers on which
  \<open>clearTimeout\<close> has been called; the network calls issued so far; and the
  signals whose controller has been aborted.
\<close>

record runtime =
  timers :: "(nat \<times> int) list"
  next_timer :: nat
  cleared :: "nat list"
  fetched :: "fetch_call list"
  aborted :: "nat list"

subsection \<open>The constructor\<close>

text \<open>
  \<open>a || b\<close> on an optional string and on an optional number: the left operand
  unless it is falsy (\<open>undefined\<close>, the empty string, zero).
\<close>

definition or_string :: "string option \<Rightarrow> string \<Rightarrow> string" where
  "or_string a b = (case a of None \<Rightarrow> b | Some s \<Rightarrow> if s = [] then b else s)"

definition or_number :: "int option \<Rightarrow> int \<Rightarrow> int" where
  "or_number a b = (case a of None \<Rightarrow> b | Some n \<Rightarrow> if n = 0 then b else n)"

definition production_endpoint :: string where
  "production_endpoint = ''https://api.shopsavvy.com/v1''"

definition constructor :: "config \<Rightarrow> runtime \<Rightarrow> (js_error + client) \<times> runtime" where
  "constructor cfg w =
     (let base = or_string (baseUrl cfg) production_endpoint;
          tmo = or_number (timeout cfg) 30000
      in case apiKey cfg of
           None \<Rightarrow> (Inl (Error ''API key is required. Get one at https://shopsavvy.com/data''), w)
         | Some k \<Rightarrow>
             if k = [] then
               (Inl (Error ''API key is required. Get one at https://shopsavvy.com/data''), w)
             else if \<not> rx_test apiKey_pattern k then
               (Inl (Error ''Invalid API key format. API keys should start with ss_live_ or ss_test_''), w)
             else
               (Inr \<lparr>this_apiKey = k, this_baseUrl = base, this_timeout = tmo\<rparr>, w))"

definition createShopSavvyClient :: "config \<Rightarrow> runtime \<Rightarrow> (js_error + client) \<times> runtime" where
  "createShopSavvyClient cfg w = constructor cfg w"

subsection \<open>JSON values\<close>

text \<open>
  What \<open>response.json()\<close> and \<open>JSON.parse\<close> produce. An object keeps its
  members in the order of the text; a later member of the same name wins.
  Numbers are modelled as integers.
\<close>

datatype json =
    JNull
  | JBool bool
  | JNum int
  | JStr string
  | JArr "json list"
  | JObj "(string \<times> json) list"

fun truthy :: "json \<Rightarrow> bool" where
  "truthy JNull = False"
| "truthy (JBool b) = b"
| "truthy (JNum n) = (n \<noteq> 0)"
| "truthy (JStr s) = (s \<noteq> [])"
| "truthy (JArr xs) = True"
| "truthy (JObj kvs) = True"

text \<open>\<open>Array.prototype.join\<close> on an array of strings.\<close>

fun join :: "string \<Rightarrow> string list \<Rightarrow> string" where
  "join sep [] = []"
| "join sep [x] = x"
| "join sep (x # y # ys) = x @ sep @ join sep (y # ys)"

text \<open>
  \<open>ToString\<close>, which \<open>new Error(v)\<close> applies to its argument: a string is
  itself, an array is the comma-join of its elements (\<open>null\<close> as the empty
  string), an object is \<open>[object Object]\<close>.
\<close>

fun ToString :: "json \<Rightarrow> string" where
  "ToString JNull = ''null''"
| "ToString (JBool b) = (if b then ''true'' else ''false'')"
| "ToString (JNum n) = Number_toString n"
| "ToString (JStr s) = s"
| "ToString (JArr xs) = join '','' (map (\<lambda>x. if x = JNull then [] else ToString x) xs)"
| "ToString (JObj kvs) = ''[object Object]''"

text \<open>
  The property read \<open>data.error\<close>: a \<open>TypeError\<close> on \<open>null\<close> (with the
  message of V8), the member of an object (\<open>None\<close> is \<open>undefined\<close>), and
  \<open>undefined\<close> on every other value.
\<close>

fun get_error :: "json \<Rightarrow> js_error + json option" where
  "get_error JNull =
     Inl (JsError ''TypeError'' ''Cannot read properties of null (reading 'error')'')"
| "get_error (JObj kvs) = Inr (map_of (rev kvs) ''error'')"
| "get_error v = Inr None"

subsection \<open>The transport\<close>

text \<open>
  What \<open>await response.json()\<close> does: it yields the parsed body, rejects (a body
  that is not JSON, a broken connection), or never settles.
\<close>

datatype body_read = Parsed json | ReadFails js_error | ReadStalls

record response =
  status :: nat
  statusText :: string
  payload :: body_read

text \<open>\<open>response.ok\<close>: the status is in the range 200 to 299.\<close>

definition ok :: "response \<Rightarrow> bool" where
  "ok r = (200 \<le> status r \<and> status r \<le> 299)"

text \<open>
  What the network does with one \<open>fetch\<close>, left alone: the response arrives
  (its status line and headers) so many milliseconds after the call, the
  connection fails with an error so many milliseconds after the call, or
  nothing ever happens (\<open>Stalls\<close>). The transport is a function of the calls
  issued so far, the last one being the current call.
\<close>

datatype transport = Responds nat response | Fails nat js_error | Stalls


type_synonym network = "fetch_call list \<Rightarrow> transport"

text \<open>The outcome of an asynchronous method.\<close>

datatype 'a promise = Resolved 'a | Rejected js_error | Pending

text \<open>The \<open>options\<close> argument of \<open>request\<close>, spread into the \<open>fetch\<close> init.\<close>

record request_init =
  init_method :: "string option"
  init_body :: "string option"
  init_headers :: "(string \<times> string) list"

definition no_init :: request_init where
  "no_init = \<lparr>init_method = None, init_body = None, init_headers = []\<rparr>"

subsection \<open>Timers\<close>

definition setTimeout :: "int \<Rightarrow> runtime \<Rightarrow> nat \<times> runtime" where
  "setTimeout delay w =
     (next_timer w,
      w\<lparr>timers := timers w @ [(next_timer w, delay)], next_timer := Suc (next_timer w)\<rparr>)"

definition clearTimeout :: "nat \<Rightarrow> runtime \<Rightarrow> runtime" where
  "clearTimeout t w =
     w\<lparr>timers := filter (\<lambda>p. fst p \<noteq> t) (timers w), cleared := cleared w @ [t]\<rparr>"

text \<open>
  The timer \<open>t\<close> fires: it is no longer pending, and its callback
  \<open>() => controller.abort()\<close> aborts the signal of the call.
\<close>

definition fire_timer :: "nat \<Rightarrow> runtime \<Rightarrow> runtime" where
  "fire_timer t w =
     w\<lparr>timers := filter (\<lambda>p. fst p \<noteq> t) (timers w), aborted := aborted w @ [t]\<rparr>"

definition AbortError :: js_error where
  "AbortError = JsError ''AbortError'' ''This operation was aborted''"

text \<open>
  When a timer set with the delay \<open>d\<close> fires, in milliseconds after it was
  set: after \<open>d\<close> for a delay from 1 to \<open>2^31 - 1\<close>, and after one millisecond
  for any other delay (the rule of Node).
\<close>

definition timer_due :: "int \<Rightarrow> nat" where
  "timer_due d = (if 1 \<le> d \<and> d \<le> 2147483647 then nat d else 1)"

text \<open>
  What \<open>await fetch(url, {..., signal})\<close> yields. The host looks for the pending
  timer that aborts the signal of the call (the one of that identifier set
  last). With no such timer the transport is left alone, and a transport that
  stalls leaves the promise unsettled for ever. With such a timer, a transport
  that has settled when the timer is due settles the promise; otherwise the
  timer fires, its callback aborts the signal, and the promise is rejected with
  an \<open>AbortError\<close>.
\<close>

datatype settled = Response response | Failure js_error | Unsettled

definition await_fetch :: "transport \<Rightarrow> nat \<Rightarrow> runtime \<Rightarrow> settled \<times> runtime" where
  "await_fetch tr sig w =
     (case map_of (rev (timers w)) sig of
        None \<Rightarrow>
          (case tr of
             Responds t r \<Rightarrow> (Response r, w)
           | Fails t e \<Rightarrow> (Failure e, w)
           | Stalls \<Rightarrow> (Unsettled, w))
      | Some d \<Rightarrow>
          (case tr of
             Responds t r \<Rightarrow>
               if t \<le> timer_due d then (Response r, w)
               else (Failure AbortError, fire_timer sig w)
           | Fails t e \<Rightarrow>
               if t \<le> timer_due d then (Failure e, w)
               else (Failure AbortError, fire_timer sig w)
           | Stalls \<Rightarrow> (Failure AbortError, fire_timer sig w)))"

subsection \<open>The request primitive\<close>

text \<open>
  Object spread \<open>{...a, ...b}\<close> on string-valued objects: a key of \<open>b\<close> that
  \<open>a\<close> has takes its place there, a new key goes to the end.
\<close>

fun assign :: "(string \<times> string) list \<Rightarrow> string \<Rightarrow> string \<Rightarrow> (string \<times> string) list" where
  "assign [] k v = [(k, v)]"
| "assign (p # ps) k v = (if fst p = k then (k, v) # ps else p # assign ps k v)"

definition spread :: "(string \<times> string) list \<Rightarrow> (string \<times> string) list \<Rightarrow> (string \<times> string) list" where
  "spread a b = foldl (\<lambda>acc p. assign acc (fst p) (snd p)) a b"

definition request_headers :: "client \<Rightarrow> request_init \<Rightarrow> (string \<times> string) list" where
  "request_headers c options =
     spread [(''Authorization'', ''Bearer '' @ this_apiKey c),
             (''Content-Type'', ''application/json''),
             (''User-Agent'', ''ShopSavvy-TypeScript-SDK/1.0.0'')]
            (init_headers options)"

text \<open>The \<open>fetch\<close> call that \<open>request\<close> issues when its timer is \<open>timeoutId\<close>.\<close>

definition request_call :: "client \<Rightarrow> string \<Rightarrow> request_init \<Rightarrow> nat \<Rightarrow> fetch_call" where
  "request_call c endpoint options timeoutId =
     \<lparr>url = this_baseUrl c @ endpoint,
      http_method = init_method options,
      headers = request_headers c options,
      body = init_body options,
      signal = timeoutId\<rparr>"

text \<open>The \<open>catch\<close> block of \<open>request\<close>.\<close>

definition catch_block :: "client \<Rightarrow> nat \<Rightarrow> js_error \<Rightarrow> runtime \<Rightarrow> json promise \<times> runtime" where
  "catch_block c timeoutId e w =
     (let w' = clearTimeout timeoutId w
      in if name e = ''AbortError'' then
           (Rejected (Error (''Request timeout after '' @ Number_toString (this_timeout c) @ ''ms'')), w')
         else (Rejected e, w'))"

text \<open>
  The \<open>try\<close> block from the arrival of the response on: the timer is cleared,
  the body is read, and a response that is not \<open>ok\<close> throws into the \<open>catch\<close>
  block.
\<close>

definition after_response :: "client \<Rightarrow> nat \<Rightarrow> response \<Rightarrow> runtime \<Rightarrow> json promise \<times> runtime" where
  "after_response c timeoutId r w =
     (let w' = clearTimeout timeoutId w
      in case payload r of
           ReadStalls \<Rightarrow> (Pending, w')
         | ReadFails e \<Rightarrow> catch_block c timeoutId e w'
         | Parsed data \<Rightarrow>
             if \<not> ok r then
               (case get_error data of
                  Inl e \<Rightarrow> catch_block c timeoutId e w'
                | Inr v \<Rightarrow>
                    let fallback = ''HTTP '' @ nat_to_string (status r) @ '': '' @ statusText r;
                        msg = (case v of
                                 None \<Rightarrow> fallback
                               | Some x \<Rightarrow> if truthy x then ToString x else fallback)
                    in catch_block c timeoutId (Error msg) w')
             else (Resolved data, w'))"

definition request ::
  "network \<Rightarrow> string \<Rightarrow> request_init \<Rightarrow> client \<times> runtime \<Rightarrow> json promise \<times> client \<times> runtime" where
  "request net endpoint options s =
     (let c = fst s;
          (timeoutId, w1) = setTimeout (this_timeout c) (snd s);
          w2 = w1\<lparr>fetched := fetched w1 @ [request_call c endpoint options timeoutId]\<rparr>;
          (x, w3) = await_fetch (net (fetched w2)) timeoutId w2;
          (p, w') =
            (case x of
               Response r \<Rightarrow> after_response c timeoutId r w3
             | Failure e \<Rightarrow> catch_block c timeoutId e w3
             | Unsettled \<Rightarrow> (Pending, w3))
      in (p, c, w'))"

subsection \<open>Encoding of parameters\<close>

text \<open>
  \<open>URLSearchParams.prototype.toString\<close>: the \<open>application/x-www-form-urlencoded\<close>
  serialisation of a list of name-value pairs. A space becomes \<open>+\<close>; letters,
  digits and \<open>* - . _\<close> stay; every other byte becomes \<open>%XX\<close>.
\<close>

definition hex_upper :: "nat \<Rightarrow> char" where
  "hex_upper d = (if d < 10 then char_of (48 + d) else char_of (55 + d))"

definition urlencoded_safe :: "char \<Rightarrow> bool" where
  "urlencoded_safe c = (alphanumeric c \<or> c \<in> set ''*-._'')"

definition urlencode_byte :: "char \<Rightarrow> string" where
  "urlencode_byte c =
     (if c = CHR '' '' then ''+''
      else if urlencoded_safe c then [c]
      else [CHR ''%'', hex_upper (of_char c div 16), hex_upper (of_char c mod 16)])"

definition urlencode :: "string \<Rightarrow> string" where
  "urlencode s = concat (map urlencode_byte s)"

definition URLSearchParams_toString :: "(string \<times> string) list \<Rightarrow> string" where
  "URLSearchParams_toString ps =
     join ''&'' (map (\<lambda>p. urlencode (fst p) @ ''='' @ urlencode (snd p)) ps)"

text \<open>
  The parser of the same format, as the server (or \<open>new URLSearchParams(string)\<close>)
  reads a query string: split at \<open>&\<close>, drop empty pieces, split each piece at its
  first \<open>=\<close>, turn \<open>+\<close> into a space and decode \<open>%XX\<close>.
\<close>

primrec split_on :: "char \<Rightarrow> string \<Rightarrow> string list" where
  "split_on d [] = [[]]"
| "split_on d (c # cs) =
     (if c = d then [] # split_on d cs
      else (case split_on d cs of [] \<Rightarrow> [[c]] | x # xs \<Rightarrow> (c # x) # xs))"

definition is_hex :: "char \<Rightarrow> bool" where
  "is_hex c =
     (let n = (of_char c :: nat)
      in (48 \<le> n \<and> n \<le> 57) \<or> (65 \<le> n \<and> n \<le> 70) \<or> (97 \<le> n \<and> n \<le> 102))"

definition hex_value :: "char \<Rightarrow> nat" where
  "hex_value c =
     (let n = (of_char c :: nat)
      in if n \<le> 57 then n - 48 else if n \<le> 70 then n - 55 else n - 87)"

fun percent_decode :: "string \<Rightarrow> string" where
  "percent_decode (p # h # l # cs) =
     (if p = CHR ''%'' \<and> is_hex h \<and> is_hex l
      then char_of (16 * hex_value h + hex_value l) # percent_decode cs
      else p # percent_decode (h # l # cs))"
| "percent_decode cs = cs"

definition urldecode :: "string \<Rightarrow> string" where
  "urldecode s = percent_decode (map (\<lambda>c. if c = CHR ''+'' then CHR '' '' else c) s)"

definition parse_pair :: "string \<Rightarrow> string \<times> string" where
  "parse_pair s =
     (let n = takeWhile (\<lambda>c. c \<noteq> CHR ''='') s
      in (urldecode n, urldecode (drop (Suc (length n)) s)))"

definition parse_query :: "string \<Rightarrow> (string \<times> string) list" where
  "parse_query qs = map parse_pair (filter (\<lambda>s. s \<noteq> []) (split_on CHR ''&'' qs))"

text \<open>
  \<open>JSON.stringify\<close>: strings are quoted, with the quote, the backslash and the
  control characters escaped.
\<close>

definition hex_lower :: "nat \<Rightarrow> char" where
  "hex_lower d = (if d < 10 then char_of (48 + d) else char_of (87 + d))"

definition json_escape :: "char \<Rightarrow> string" where
  "json_escape c =
     (if c = CHR 0x22 then [CHR 0x5C, CHR 0x22]
      else if c = CHR 0x5C then [CHR 0x5C, CHR 0x5C]
      else if c = CHR 0x08 then [CHR 0x5C, CHR ''b'']
      else if c = CHR 0x0C then [CHR 0x5C, CHR ''f'']
      else if c = CHR 0x0A then [CHR 0x5C, CHR ''n'']
      else if c = CHR 0x0D then [CHR 0x5C, CHR ''r'']
      else if c = CHR 0x09 then [CHR 0x5C, CHR ''t'']
      else if (of_char c :: nat) < 32 then
        [CHR 0x5C, CHR ''u'', CHR ''0'', CHR ''0'',
         hex_lower (of_char c div 16), hex_lower (of_char c mod 16)]
      else [c])"

definition QuoteJSONString :: "string \<Rightarrow> string" where
  "QuoteJSONString s = [CHR 0x22] @ concat (map json_escape s) @ [CHR 0x22]"

fun JSON_stringify :: "json \<Rightarrow> string" where
  "JSON_stringify JNull = ''null''"
| "JSON_stringify (JBool b) = (if b then ''true'' else ''false'')"
| "JSON_stringify (JNum n) = Number_toString n"
| "JSON_stringify (JStr s) = QuoteJSONString s"
| "JSON_stringify (JArr xs) = ''['' @ join '','' (map JSON_stringify xs) @ '']''"
| "JSON_stringify (JObj kvs) =
     ''{'' @ join '','' (map (\<lambda>(k, v). QuoteJSONString k @ '':'' @ JSON_stringify v) kvs) @ ''}''"

text \<open>The text of one member of an object of strings, as \<open>JSON.stringify\<close> writes it.\<close>

definition member_text :: "string \<times> string \<Rightarrow> string" where
  "member_text p = QuoteJSONString (fst p) @ '':'' @ QuoteJSONString (snd p)"

subsection \<open>The public operations\<close>

text \<open>
  The options of the public operations: \<open>retailer?: string\<close> and
  \<open>format?: 'json' | 'csv'\<close>; \<open>frequency\<close> is \<open>'hourly' | 'daily' | 'weekly'\<close>.
\<close>

datatype output_format = FormatJson | FormatCsv

fun format_string :: "output_format \<Rightarrow> string" where
  "format_string FormatJson = ''json''"
| "format_string FormatCsv = ''csv''"

datatype frequency = Hourly | Daily | Weekly

fun frequency_string :: "frequency \<Rightarrow> string" where
  "frequency_string Hourly = ''hourly''"
| "frequency_string Daily = ''daily''"
| "frequency_string Weekly = ''weekly''"

record options =
  retailer :: "string option"
  format :: "output_format option"

text \<open>
  \<open>v && { k: v }\<close>, to be spread into an object literal: the one-member object
  when \<open>v\<close> is truthy, and nothing to spread when \<open>v\<close> is \<open>undefined\<close> or the
  empty string.
\<close>

definition and_entry :: "string \<Rightarrow> string option \<Rightarrow> (string \<times> string) list" where
  "and_entry k v = (case v of None \<Rightarrow> [] | Some s \<Rightarrow> if s = [] then [] else [(k, s)])"

definition retailer_entry :: "options \<Rightarrow> (string \<times> string) list" where
  "retailer_entry opts = and_entry ''retailer'' (retailer opts)"

definition format_entry :: "options \<Rightarrow> (string \<times> string) list" where
  "format_entry opts = and_entry ''format'' (map_option format_string (format opts))"

text \<open>An object literal of strings, as \<open>JSON.stringify\<close> receives it.\<close>

definition string_object :: "(string \<times> string) list \<Rightarrow> json" where
  "string_object ps = JObj (map (\<lambda>p. (fst p, JStr (snd p))) ps)"

definition getProductDetails_params :: "string \<Rightarrow> options \<Rightarrow> (string \<times> string) list" where
  "getProductDetails_params identifier opts =
     spread [(''identifier'', identifier)] (format_entry opts)"

definition getProductDetails ::
  "network \<Rightarrow> string \<Rightarrow> options \<Rightarrow> client \<times> runtime \<Rightarrow> json promise \<times> client \<times> runtime" where
  "getProductDetails net identifier opts s =
     request net
       (''/products/details?'' @ URLSearchParams_toString (getProductDetails_params identifier opts))
       no_init s"

definition getProductDetailsBatch_params :: "string list \<Rightarrow> options \<Rightarrow> (string \<times> string) list" where
  "getProductDetailsBatch_params identifiers opts =
     spread [(''identifiers'', join '','' identifiers)] (format_entry opts)"

definition getProductDetailsBatch ::
  "network \<Rightarrow> string list \<Rightarrow> options \<Rightarrow> client \<times> runtime \<Rightarrow> json promise \<times> client \<times> runtime" where
  "getProductDetailsBatch net identifiers opts s =
     request net
       (''/products/details?'' @ URLSearchParams_toString (getProductDetailsBatch_params identifiers opts))
       no_init s"

definition getCurrentOffers_params :: "string \<Rightarrow> options \<Rightarrow> (string \<times> string) list" where
  "getCurrentOffers_params identifier opts =
     spread (spread [(''identifier'', identifier)] (retailer_entry opts)) (format_entry opts)"

definition getCurrentOffers ::
  "network \<Rightarrow> string \<Rightarrow> options \<Rightarrow> client \<times> runtime \<Rightarrow> json promise \<times> client \<times> runtime" where
  "getCurrentOffers net identifier opts s =
     request net
       (''/products/offers?'' @ URLSearchParams_toString (getCurrentOffers_params identifier opts))
       no_init s"

definition getCurrentOffersBatch_params :: "string list \<Rightarrow> options \<Rightarrow> (string \<times> string) list" where
  "getCurrentOffersBatch_params identifiers opts =
     spread (spread [(''identifiers'', join '','' identifiers)] (retailer_entry opts)) (format_entry opts)"

definition getCurrentOffersBatch ::
  "network \<Rightarrow> string list \<Rightarrow> options \<Rightarrow> client \<times> runtime \<Rightarrow> json promise \<times> client \<times> runtime" where
  "getCurrentOffersBatch net identifiers opts s =
     request net
       (''/products/offers?'' @ URLSearchParams_toString (getCurrentOffersBatch_params identifiers opts))
       no_init s"

definition getPriceHistory_params :: "string \<Rightarrow> string \<Rightarrow> string \<Rightarrow> options \<Rightarrow> (string \<times> string) list" where
  "getPriceHistory_params identifier startDate endDate opts =
     spread
       (spread [(''identifier'', identifier), (''start_date'', startDate), (''end_date'', endDate)]
          (retailer_entry opts))
       (format_entry opts)"

definition getPriceHistory ::
  "network \<Rightarrow> string \<Rightarrow> string \<Rightarrow> string \<Rightarrow> options \<Rightarrow> client \<times> runtime
     \<Rightarrow> json promise \<times> client \<times> runtime" where
  "getPriceHistory net identifier startDate endDate opts s =
     request net
       (''/products/history?'' @
          URLSearchParams_toString (getPriceHistory_params identifier startDate endDate opts))
       no_init s"

definition scheduleProductMonitoring_body :: "string \<Rightarrow> frequency \<Rightarrow> options \<Rightarrow> (string \<times> string) list" where
  "scheduleProductMonitoring_body identifier freq opts =
     spread [(''identifier'', identifier), (''frequency'', frequency_string freq)]
       (retailer_entry opts)"

definition scheduleProductMonitoring ::
  "network \<Rightarrow> string \<Rightarrow> frequency \<Rightarrow> options \<Rightarrow> client \<times> runtime
     \<Rightarrow> json promise \<times> client \<times> runtime" where
  "scheduleProductMonitoring net identifier freq opts s =
     request net ''/products/schedule''
       \<lparr>init_method = Some ''POST'',
        init_body = Some (JSON_stringify
          (string_object (scheduleProductMonitoring_body identifier freq opts))),
        init_headers = []\<rparr> s"

definition scheduleProductMonitoringBatch_body ::
  "string list \<Rightarrow> frequency \<Rightarrow> options \<Rightarrow> (string \<times> string) list" where
  "scheduleProductMonitoringBatch_body identifiers freq opts =
     spread [(''identifiers'', join '','' identifiers), (''frequency'', frequency_string freq)]
       (retailer_entry opts)"

definition scheduleProductMonitoringBatch ::
  "network \<Rightarrow> string list \<Rightarrow> frequency \<Rightarrow> options \<Rightarrow> client \<times> runtime
     \<Rightarrow> json promise \<times> client \<times> runtime" where
  "scheduleProductMonitoringBatch net identifiers freq opts s =
     request net ''/products/schedule''
       \<lparr>init_method = Some ''POST'',
        init_body = Some (JSON_stringify
          (string_object (scheduleProductMonitoringBatch_body identifiers freq opts))),
        init_headers = []\<rparr> s"

definition getScheduledProducts ::
  "network \<Rightarrow> client \<times> runtime \<Rightarrow> json promise \<times> client \<times> runtime" where
  "getScheduledProducts net s = request net ''/products/scheduled'' no_init s"

definition removeProductFromSchedule ::
  "network \<Rightarrow> string \<Rightarrow> client \<times> runtime \<Rightarrow> json promise \<times> client \<times> runtime" where
  "removeProductFromSchedule net identifier s =
     request net ''/products/schedule''
       \<lparr>init_method = Some ''DELETE'',
        init_body = Some (JSON_stringify (string_object [(''identifier'', identifier)])),
        init_headers = []\<rparr> s"

definition removeProductsFromSchedule ::
  "network \<Rightarrow> string list \<Rightarrow> client \<times> runtime \<Rightarrow> json promise \<times> client \<times> runtime" where
  "removeProductsFromSchedule net identifiers s =
     request net ''/products/schedule''
       \<lparr>init_method = Some ''DELETE'',
        init_body = Some (JSON_stringify (string_object [(''identifiers'', join '','' identifiers)])),
        init_headers = []\<rparr> s"

definition getUsage ::
  "network \<Rightarrow> client \<times> runtime \<Rightarrow> json promise \<times> client \<times> runtime" where
  "getUsage net s = request net ''/usage'' no_init s"

text \<open>
  The public operations as data, so that a statement can range over all of
  them and over sequences of calls on one client.
\<close>

datatype operation =
    GetProductDetails string options
  | GetProductDetailsBatch "string list" options
  | GetCurrentOffers string options
  | GetCurrentOffersBatch "string list" options
  | GetPriceHistory string string string options
  | ScheduleProductMonitoring string frequency options
  | ScheduleProductMonitoringBatch "string list" frequency options
  | GetScheduledProducts
  | RemoveProductFromSchedule string
  | RemoveProductsFromSchedule "string list"
  | GetUsage

fun perform ::
  "network \<Rightarrow> operation \<Rightarrow> client \<times> runtime \<Rightarrow> json promise \<times> client \<times> runtime" where
  "perform net (GetProductDetails i opts) s = getProductDetails net i opts s"
| "perform net (GetProductDetailsBatch is opts) s = getProductDetailsBatch net is opts s"
| "perform net (GetCurrentOffers i opts) s = getCurrentOffers net i opts s"
| "perform net (GetCurrentOffersBatch is opts) s = getCurrentOffersBatch net is opts s"
| "perform net (GetPriceHistory i a b opts) s = getPriceHistory net i a b opts s"
| "perform net (ScheduleProductMonitoring i f opts) s = scheduleProductMonitoring net i f opts s"
| "perform net (ScheduleProductMonitoringBatch is f opts) s =
     scheduleProductMonitoringBatch net is f opts s"
| "perform net GetScheduledProducts s = getScheduledProducts net s"
| "perform net (RemoveProductFromSchedule i) s = removeProductFromSchedule net i s"
| "perform net (RemoveProductsFromSchedule is) s = removeProductsFromSchedule net is s"
| "perform net GetUsage s = getUsage net s"

text \<open>A sequence of calls on one client, one after the other.\<close>

fun perform_all ::
  "network \<Rightarrow> operation list \<Rightarrow> client \<times> runtime \<Rightarrow> client \<times> runtime" where
  "perform_all net [] s = s"
| "perform_all net (x # xs) s = perform_all net xs (snd (perform net x s))"

subsection \<open>Observing a call\<close>

text \<open>
  The three components of what an operation returns: the outcome of its promise,
  the client, and the host state.
\<close>

definition outcome :: "json promise \<times> client \<times> runtime \<Rightarrow> json promise" where
  "outcome res = fst res"

definition client_after :: "json promise \<times> client \<times> runtime \<Rightarrow> client" where
  "client_after res = fst (snd res)"

definition runtime_after :: "json promise \<times> client \<times> runtime \<Rightarrow> runtime" where
  "runtime_after res = snd (snd res)"

text \<open>
  The network call of an operation (the last one issued), the part of its
  address after the base address, and the query string of that part (what
  follows the first question mark), parsed as the server parses it.
\<close>

definition sent :: "json promise \<times> client \<times> runtime \<Rightarrow> fetch_call" where
  "sent res = last (fetched (runtime_after res))"

definition target :: "client \<Rightarrow> fetch_call \<Rightarrow> string" where
  "target c call = drop (length (this_baseUrl c)) (url call)"

definition query_of :: "string \<Rightarrow> string" where
  "query_of t = drop 1 (dropWhile (\<lambda>x. x \<noteq> CHR ''?'') t)"

definition sent_query :: "client \<Rightarrow> json promise \<times> client \<times> runtime \<Rightarrow> (string \<times> string) list" where
  "sent_query c res = parse_query (query_of (target c (sent res)))"

text \<open>
  The body of the network call, read as the server reads it: a JSON parser for
  the texts that the operations send, objects whose members are strings. A
  string ends at the first quote that no backslash escapes; the escapes are
  those of JSON, the hexadecimal one being read for a single byte.
\<close>

definition escaped_char :: "char \<Rightarrow> char option" where
  "escaped_char e =
     (if e = CHR 0x22 then Some (CHR 0x22)
      else if e = CHR 0x5C then Some (CHR 0x5C)
      else if e = CHR ''/'' then Some (CHR ''/'')
      else if e = CHR ''b'' then Some (CHR 0x08)
      else if e = CHR ''f'' then Some (CHR 0x0C)
      else if e = CHR ''n'' then Some (CHR 0x0A)
      else if e = CHR ''r'' then Some (CHR 0x0D)
      else if e = CHR ''t'' then Some (CHR 0x09)
      else None)"

definition consume :: "char \<Rightarrow> (string \<times> string) option \<Rightarrow> (string \<times> string) option" where
  "consume c r = (case r of None \<Rightarrow> None | Some p \<Rightarrow> Some (c # fst p, snd p))"

fun read_string :: "string \<Rightarrow> (string \<times> string) option" where
  "read_string [] = None"
| "read_string (c # cs) =
     (if c = CHR 0x22 then Some ([], cs)
      else if c = CHR 0x5C then
        (case cs of
           [] \<Rightarrow> None
         | e # r \<Rightarrow>
             if e = CHR ''u'' then
               (case r of
                  a # b # h # l # r' \<Rightarrow>
                    if a = CHR ''0'' \<and> b = CHR ''0'' \<and> is_hex h \<and> is_hex l
                    then consume (char_of (16 * hex_value h + hex_value l)) (read_string r')
                    else None
                | _ \<Rightarrow> None)
             else
               (case escaped_char e of
                  None \<Rightarrow> None
                | Some d \<Rightarrow> consume d (read_string r)))
      else consume c (read_string cs))"

text \<open>
  The members of an object after its opening brace, up to the closing brace
  that ends the text. The first argument bounds the number of members read.
\<close>

fun read_members :: "nat \<Rightarrow> string \<Rightarrow> (string \<times> string) list option" where
  "read_members 0 s = None"
| "read_members (Suc n) s =
     (case strip_prefix [CHR 0x22] s of
        None \<Rightarrow> None
      | Some s1 \<Rightarrow>
          (case read_string s1 of
             None \<Rightarrow> None
           | Some kr \<Rightarrow>
               (case strip_prefix [CHR '':'', CHR 0x22] (snd kr) of
                  None \<Rightarrow> None
                | Some s2 \<Rightarrow>
                    (case read_string s2 of
                       None \<Rightarrow> None
                     | Some vr \<Rightarrow>
                         if snd vr = ''}'' then Some [(fst kr, fst vr)]
                         else
                           (case strip_prefix '','' (snd vr) of
                              None \<Rightarrow> None
                            | Some s3 \<Rightarrow>
                                map_option ((#) (fst kr, fst vr)) (read_members n s3))))))"

definition parse_string_object :: "string \<Rightarrow> (string \<times> string) list option" where
  "parse_string_object s =
     (if s = ''{}'' then Some []
      else case strip_prefix ''{'' s of
             None \<Rightarrow> None
           | Some r \<Rightarrow> read_members (length r) r)"

definition sent_body :: "json promise \<times> client \<times> runtime \<Rightarrow> (string \<times> string) list option" where
  "sent_body res = (case body (sent res) of None \<Rightarrow> None | Some b \<Rightarrow> parse_string_object b)"

text \<open>
  Concrete inputs: a host with nothing pending, a network that treats every
  call alike, and the client of the key \<open>ss_test_abc123\<close> with a timeout of
  50 milliseconds.
\<close>

definition fresh_runtime :: runtime where
  "fresh_runtime = \<lparr>timers = [], next_timer = 0, cleared = [], fetched = [], aborted = []\<rparr>"

definition const_network :: "transport \<Rightarrow> network" where
  "const_network t calls = t"

definition test_client :: client where
  "test_client =
     \<lparr>this_apiKey = ''ss_test_abc123'', this_baseUrl = ''https://api.shopsavvy.com/v1'',
      this_timeout = 50\<rparr>"

definition no_options :: options where
  "no_options = \<lparr>retailer = None, format = None\<rparr>"

section \<open>Auxiliary facts\<close>

subsection \<open>The key pattern\<close>

lemma strip_prefix_Some: "strip_prefix p s = Some t \<longleftrightarrow> s = p @ t"
  by (induction p s rule: strip_prefix.induct) auto

lemma rx_match_Lit: "t \<in> set (rx_match (Lit p) s) \<longleftrightarrow> s = p @ t"
proof (cases "strip_prefix p s")
  case None
  then show ?thesis using strip_prefix_Some [of p s t] by simp
next
  case (Some u)
  then show ?thesis using strip_prefix_Some [of p s t] by auto
qed

lemma rx_match_Alt:
  "t \<in> set (rx_match (Alt a b) s) \<longleftrightarrow> t \<in> set (rx_match a s) \<or> t \<in> set (rx_match b s)"
  by simp

lemma rx_match_Seq:
  "t \<in> set (rx_match (Seq a b) s) \<longleftrightarrow> (\<exists>u. u \<in> set (rx_match a s) \<and> t \<in> set (rx_match b u))"
  by auto

lemma plus_class_whole: "[] \<in> set (plus_class cs s) \<longleftrightarrow> s \<noteq> [] \<and> list_all (in_class cs) s"
  by (induction cs s rule: plus_class.induct) auto

lemma in_class_alphanumeric:
  "in_class [(CHR ''a'', CHR ''z''), (CHR ''A'', CHR ''Z''), (CHR ''0'', CHR ''9'')] c = alphanumeric c"
  by (simp add: in_class_def in_range_def alphanumeric_def Let_def)

lemma rx_test_apiKey_pattern_unfold:
  "rx_test apiKey_pattern k \<longleftrightarrow>
     (\<exists>u1. k = ''ss_'' @ u1 \<and> (\<exists>u2. (u1 = ''live'' @ u2 \<or> u1 = ''test'' @ u2) \<and>
        (\<exists>u3. u2 = ''_'' @ u3 \<and> u3 \<noteq> [] \<and> list_all (in_class [(CHR ''a'', CHR ''z''), (CHR ''A'', CHR ''Z''), (CHR ''0'', CHR ''9'')]) u3)))"
  by (simp only: rx_test_def apiKey_pattern_def rx_match_Seq rx_match_Alt rx_match_Lit
        rx_match.simps(4) plus_class_whole)

lemma list_all_in_class_alphanumeric:
  "list_all (in_class [(CHR ''a'', CHR ''z''), (CHR ''A'', CHR ''Z''), (CHR ''0'', CHR ''9'')]) s
     = list_all alphanumeric s"
  by (induction s) (simp_all add: in_class_alphanumeric)

lemma rx_test_apiKey_pattern: "rx_test apiKey_pattern k \<longleftrightarrow> key_format k"
proof
  assume "rx_test apiKey_pattern k"
  then obtain u1 u2 u3 where k: "k = ''ss_'' @ u1"
    and e: "u1 = ''live'' @ u2 \<or> u1 = ''test'' @ u2"
    and r: "u2 = ''_'' @ u3" "u3 \<noteq> []" "list_all alphanumeric u3"
    unfolding rx_test_apiKey_pattern_unfold list_all_in_class_alphanumeric by blast
  from e obtain e' where e': "e' = ''live'' \<or> e' = ''test''" "u1 = e' @ u2" by blast
  have "k = ''ss_'' @ e' @ ''_'' @ u3" using k e'(2) r(1) by simp
  with e'(1) r(2,3) show "key_format k" unfolding key_format_def by blast
next
  assume "key_format k"
  then obtain e rest where e: "e = ''live'' \<or> e = ''test''" and r: "rest \<noteq> []" "list_all alphanumeric rest"
    and k: "k = ''ss_'' @ e @ ''_'' @ rest"
    unfolding key_format_def by blast
  from e have "e @ ''_'' @ rest = ''live'' @ (''_'' @ rest) \<or> e @ ''_'' @ rest = ''test'' @ (''_'' @ rest)"
    by blast
  with k r show "rx_test apiKey_pattern k"
    unfolding rx_test_apiKey_pattern_unfold list_all_in_class_alphanumeric by blast
qed

subsection \<open>The query string round trip\<close>

lemma of_char_hex_upper:
  "d < 16 \<Longrightarrow> (of_char (hex_upper d) :: nat) = (if d < 10 then 48 + d else 55 + d)"
  by (simp add: hex_upper_def)

lemma is_hex_hex_upper: "d < 16 \<Longrightarrow> is_hex (hex_upper d)"
  by (simp add: is_hex_def of_char_hex_upper Let_def)

lemma hex_value_hex_upper: "d < 16 \<Longrightarrow> hex_value (hex_upper d) = d"
  by (simp add: hex_value_def of_char_hex_upper Let_def)

lemma hex_upper_no_delim:
  assumes "d < 16"
  shows "hex_upper d \<noteq> CHR ''&''" "hex_upper d \<noteq> CHR ''=''" "hex_upper d \<noteq> CHR ''+''"
proof -
  have "(of_char (hex_upper d) :: nat) \<noteq> of_char (CHR ''&'')"
    "(of_char (hex_upper d) :: nat) \<noteq> of_char (CHR ''='')"
    "(of_char (hex_upper d) :: nat) \<noteq> of_char (CHR ''+'')"
    using assms by (simp_all add: of_char_hex_upper)
  then show "hex_upper d \<noteq> CHR ''&''" "hex_upper d \<noteq> CHR ''=''" "hex_upper d \<noteq> CHR ''+''"
    by auto
qed

lemma of_char_div16: "(of_char (c::char) :: nat) div 16 < 16"
proof -
  have "(of_char c :: nat) < 16 * 16" using nat_of_char_less_256 [of c] by simp
  then show ?thesis by (rule less_mult_imp_div_less)
qed

lemma alphanumeric_no_delim:
  assumes "alphanumeric c"
  shows "c \<noteq> CHR ''&''" "c \<noteq> CHR ''=''" "c \<noteq> CHR ''%''" "c \<noteq> CHR ''+''"
  using assms by (auto simp add: alphanumeric_def Let_def)

lemma urlencoded_safe_no_delim:
  assumes "urlencoded_safe c"
  shows "c \<noteq> CHR ''&''" "c \<noteq> CHR ''=''" "c \<noteq> CHR ''%''" "c \<noteq> CHR ''+''"
  using assms alphanumeric_no_delim [of c] by (auto simp add: urlencoded_safe_def)

lemma urlencode_byte_no_delims:
  "CHR ''&'' \<notin> set (urlencode_byte c)" "CHR ''='' \<notin> set (urlencode_byte c)"
proof -
  have h: "hex_upper (of_char c div 16) \<noteq> CHR ''&''" "hex_upper (of_char c mod 16) \<noteq> CHR ''&''"
    "hex_upper (of_char c div 16) \<noteq> CHR ''=''" "hex_upper (of_char c mod 16) \<noteq> CHR ''=''"
    by (simp_all add: hex_upper_no_delim of_char_div16)
  show "CHR ''&'' \<notin> set (urlencode_byte c)"
    using urlencoded_safe_no_delim(1) [of c] h(1,2) by (auto simp add: urlencode_byte_def)
  show "CHR ''='' \<notin> set (urlencode_byte c)"
    using urlencoded_safe_no_delim(2) [of c] h(3,4) by (auto simp add: urlencode_byte_def)
qed

lemma urlencode_no_delims:
  "CHR ''&'' \<notin> set (urlencode s)" "CHR ''='' \<notin> set (urlencode s)"
  by (simp_all add: urlencode_def urlencode_byte_no_delims)

lemma percent_decode_other:
  "p \<noteq> CHR ''%'' \<Longrightarrow> percent_decode (p # cs) = p # percent_decode cs"
proof (cases cs)
  case Nil
  then show ?thesis by simp
next
  case (Cons h t)
  assume "p \<noteq> CHR ''%''"
  then show ?thesis using Cons by (cases t) simp_all
qed

lemma urldecode_Cons_other:
  "p \<noteq> CHR ''%'' \<Longrightarrow> p \<noteq> CHR ''+'' \<Longrightarrow> urldecode (p # cs) = p # urldecode cs"
  by (simp add: urldecode_def percent_decode_other)

lemma urldecode_plus: "urldecode (CHR ''+'' # cs) = CHR '' '' # urldecode cs"
  by (simp add: urldecode_def percent_decode_other)

lemma urldecode_percent:
  "urldecode (CHR ''%'' # hex_upper (of_char c div 16) # hex_upper (of_char c mod 16) # cs)
     = c # urldecode cs"
  by (simp add: urldecode_def hex_upper_no_delim of_char_div16 is_hex_hex_upper
      hex_value_hex_upper)

lemma urldecode_urlencode_byte: "urldecode (urlencode_byte c @ cs) = c # urldecode cs"
  using urlencoded_safe_no_delim [of c]
  by (simp add: urlencode_byte_def urldecode_plus urldecode_percent urldecode_Cons_other)

lemma urldecode_urlencode: "urldecode (urlencode s) = s"
proof (induction s)
  case Nil
  then show ?case by (simp add: urlencode_def urldecode_def)
next
  case (Cons c s)
  have "urlencode (c # s) = urlencode_byte c @ urlencode s" by (simp add: urlencode_def)
  with Cons show ?case by (simp add: urldecode_urlencode_byte)
qed

lemma split_on_none: "d \<notin> set x \<Longrightarrow> split_on d x = [x]"
  by (induction x) auto

lemma split_on_append: "d \<notin> set x \<Longrightarrow> split_on d (x @ d # r) = x # split_on d r"
  by (induction x) auto

lemma split_on_join:
  "xs \<noteq> [] \<Longrightarrow> \<forall>x\<in>set xs. d \<notin> set x \<Longrightarrow> split_on d (join [d] xs) = xs"
proof (induction "[d]" xs rule: join.induct)
  case 1
  then show ?case by simp
next
  case (2 x)
  then show ?case by (simp add: split_on_none)
next
  case (3 x y ys)
  then show ?case by (simp add: split_on_append)
qed

lemma parse_pair_encoded:
  "parse_pair (urlencode k @ CHR ''='' # urlencode v) = (k, v)"
proof -
  have "x \<noteq> CHR ''=''" if "x \<in> set (urlencode k)" for x
    using that urlencode_no_delims(2) [of k] by auto
  then have "takeWhile (\<lambda>c. c \<noteq> CHR ''='') (urlencode k @ CHR ''='' # urlencode v) = urlencode k"
    by (simp add: takeWhile_append2)
  then show ?thesis by (simp add: parse_pair_def Let_def urldecode_urlencode)
qed

lemma parse_query_toString: "parse_query (URLSearchParams_toString ps) = ps"
proof (cases ps)
  case Nil
  then show ?thesis by (simp add: parse_query_def URLSearchParams_toString_def)
next
  case (Cons p ps')
  let ?enc = "\<lambda>p. urlencode (fst p) @ ''='' @ urlencode (snd p)"
  have nodelim: "\<forall>x\<in>set (map ?enc ps). CHR ''&'' \<notin> set x"
    by (simp add: urlencode_no_delims)
  have nonempty: "filter (\<lambda>s. s \<noteq> []) (map ?enc ps) = map ?enc ps"
    by (induction ps) simp_all
  have "split_on CHR ''&'' (join ''&'' (map ?enc ps)) = map ?enc ps"
    using Cons nodelim by (intro split_on_join) simp_all
  then have "parse_query (URLSearchParams_toString ps) = map parse_pair (map ?enc ps)"
    by (simp only: parse_query_def URLSearchParams_toString_def nonempty)
  also have "\<dots> = ps"
    by (induction ps) (simp_all add: parse_pair_encoded)
  finally show ?thesis .
qed

subsection \<open>The JSON round trip for objects of strings\<close>

lemma of_char_hex_lower:
  "d < 16 \<Longrightarrow> (of_char (hex_lower d) :: nat) = (if d < 10 then 48 + d else 87 + d)"
  by (simp add: hex_lower_def)

lemma is_hex_hex_lower: "d < 16 \<Longrightarrow> is_hex (hex_lower d)"
  by (simp add: is_hex_def of_char_hex_lower Let_def)

lemma hex_value_hex_lower: "d < 16 \<Longrightarrow> hex_value (hex_lower d) = d"
  by (simp add: hex_value_def of_char_hex_lower Let_def)

lemma read_string_escape: "read_string (json_escape c @ t) = consume c (read_string t)"
  by (simp add: json_escape_def escaped_char_def is_hex_hex_lower hex_value_hex_lower
      of_char_div16)

lemma read_string_quoted:
  "read_string (concat (map json_escape s) @ CHR 0x22 # rest) = Some (s, rest)"
  by (induction s) (simp_all add: read_string_escape consume_def)

lemma read_members_one:
  "read_members (Suc n) (member_text p @ x) =
     (if x = ''}'' then Some [p]
      else case strip_prefix '','' x of
             None \<Rightarrow> None
           | Some s3 \<Rightarrow> map_option ((#) p) (read_members n s3))"
  by (simp add: member_text_def QuoteJSONString_def read_string_quoted
      del: read_string.simps(2) split: option.splits)

lemma read_members_join:
  "ps \<noteq> [] \<Longrightarrow> length ps \<le> n \<Longrightarrow>
     read_members n (join '','' (map member_text ps) @ ''}'') = Some ps"
proof (induction ps arbitrary: n)
  case Nil
  then show ?case by simp
next
  case (Cons p ps)
  then obtain m where n: "n = Suc m" by (cases n) auto
  show ?case
  proof (cases ps)
    case Nil
    then show ?thesis using n read_members_one [of m p "''}''"] by simp
  next
    case (Cons q qs)
    have "read_members m (join '','' (map member_text ps) @ ''}'') = Some ps"
      using Cons.IH [of m] Cons.prems n Cons by simp
    then show ?thesis
      using n Cons read_members_one [of m p "'','' @ join '','' (map member_text ps) @ ''}''"]
      by simp
  qed
qed

lemma member_text_nonempty: "member_text p \<noteq> []"
  by (simp add: member_text_def QuoteJSONString_def)

lemma length_join: "\<forall>x\<in>set xs. x \<noteq> [] \<Longrightarrow> length xs \<le> length (join sep xs)"
proof (induction sep xs rule: join.induct)
  case (1 sep)
  then show ?case by simp
next
  case (2 sep x)
  then show ?case by (cases x) simp_all
next
  case (3 sep x y ys)
  then have "x \<noteq> []" by simp
  then have "1 \<le> length x" by (cases x) simp_all
  with 3 show ?case by simp
qed

lemma JSON_stringify_string_object:
  "JSON_stringify (string_object ps) = ''{'' @ join '','' (map member_text ps) @ ''}''"
  by (simp add: string_object_def member_text_def [abs_def] comp_def case_prod_unfold)

lemma parse_string_object_stringify:
  "parse_string_object (JSON_stringify (string_object ps)) = Some ps"
proof (cases ps)
  case Nil
  then show ?thesis by (simp add: JSON_stringify_string_object parse_string_object_def)
next
  case (Cons p qs)
  let ?r = "join '','' (map member_text ps) @ ''}''"
  have j: "length ps \<le> length (join '','' (map member_text ps))"
    using length_join [of "map member_text ps" "'',''"] by (simp add: member_text_nonempty)
  then have len: "length ps \<le> length ?r" by simp
  have "join '','' (map member_text ps) \<noteq> []"
    using j Cons by auto
  then have ne: "?r \<noteq> ''}''" by simp
  have "read_members (length ?r) ?r = Some ps"
    using Cons len by (intro read_members_join) simp_all
  then show ?thesis
    using ne by (simp add: JSON_stringify_string_object parse_string_object_def)
qed

subsection \<open>The request primitive\<close>

lemma timers_clearTimeout: "timers (clearTimeout t w) = filter (\<lambda>p. fst p \<noteq> t) (timers w)"
  by (simp add: clearTimeout_def)

lemma cleared_clearTimeout: "cleared (clearTimeout t w) = cleared w @ [t]"
  by (simp add: clearTimeout_def)

lemma catch_block_timers:
  "timers (snd (catch_block c t e w)) = filter (\<lambda>p. fst p \<noteq> t) (timers w)"
  by (simp add: catch_block_def Let_def timers_clearTimeout)

lemma catch_block_cleared: "t \<in> set (cleared (snd (catch_block c t e w)))"
  by (simp add: catch_block_def Let_def cleared_clearTimeout)

lemma after_response_timers:
  "timers (snd (after_response c t r w)) = filter (\<lambda>p. fst p \<noteq> t) (timers w)"
  by (simp add: after_response_def Let_def catch_block_timers timers_clearTimeout
      split: body_read.splits sum.splits)

lemma after_response_cleared: "t \<in> set (cleared (snd (after_response c t r w)))"
  by (simp add: after_response_def Let_def catch_block_cleared cleared_clearTimeout
      split: body_read.splits sum.splits)

lemma await_fetch_armed:
  "await_fetch tr t (w\<lparr>timers := timers w @ [(t, d)], next_timer := n, fetched := fs\<rparr>) =
     (let w2 = w\<lparr>timers := timers w @ [(t, d)], next_timer := n, fetched := fs\<rparr>
      in case tr of
           Responds k r \<Rightarrow>
             if k \<le> timer_due d then (Response r, w2)
             else (Failure AbortError, fire_timer t w2)
         | Fails k e \<Rightarrow>
             if k \<le> timer_due d then (Failure e, w2)
             else (Failure AbortError, fire_timer t w2)
         | Stalls \<Rightarrow> (Failure AbortError, fire_timer t w2))"
  by (simp add: await_fetch_def Let_def split: transport.splits)

lemma request_unfold:
  "request net endpoint options (c, w) =
     (let t = next_timer w;
          w2 = w\<lparr>timers := timers w @ [(t, this_timeout c)], next_timer := Suc t,
                 fetched := fetched w @ [request_call c endpoint options t]\<rparr>;
          late = catch_block c t AbortError (fire_timer t w2)
      in case net (fetched w @ [request_call c endpoint options t]) of
           Responds k r \<Rightarrow>
             if k \<le> timer_due (this_timeout c)
             then (fst (after_response c t r w2), c, snd (after_response c t r w2))
             else (fst late, c, snd late)
         | Fails k e \<Rightarrow>
             if k \<le> timer_due (this_timeout c)
             then (fst (catch_block c t e w2), c, snd (catch_block c t e w2))
             else (fst late, c, snd late)
         | Stalls \<Rightarrow> (fst late, c, snd late))"
  by (simp add: request_def setTimeout_def await_fetch_armed Let_def
      split: transport.splits prod.splits)

lemma request_runtime:
  "snd (snd (request net endpoint options (c, w))) =
     (let t = next_timer w;
          w2 = w\<lparr>timers := timers w @ [(t, this_timeout c)], next_timer := Suc t,
                 fetched := fetched w @ [request_call c endpoint options t]\<rparr>;
          late = catch_block c t AbortError (fire_timer t w2)
      in case net (fetched w @ [request_call c endpoint options t]) of
           Responds k r \<Rightarrow>
             if k \<le> timer_due (this_timeout c) then snd (after_response c t r w2) else snd late
         | Fails k e \<Rightarrow>
             if k \<le> timer_due (this_timeout c) then snd (catch_block c t e w2) else snd late
         | Stalls \<Rightarrow> snd late)"
  by (simp add: request_unfold Let_def split: transport.splits)

lemma request_result:
  "fst (request net endpoint options (c, w)) =
     (let t = next_timer w;
          w2 = w\<lparr>timers := timers w @ [(t, this_timeout c)], next_timer := Suc t,
                 fetched := fetched w @ [request_call c endpoint options t]\<rparr>;
          late = catch_block c t AbortError (fire_timer t w2)
      in case net (fetched w @ [request_call c endpoint options t]) of
           Responds k r \<Rightarrow>
             if k \<le> timer_due (this_timeout c) then fst (after_response c t r w2) else fst late
         | Fails k e \<Rightarrow>
             if k \<le> timer_due (this_timeout c) then fst (catch_block c t e w2) else fst late
         | Stalls \<Rightarrow> fst late)"
  by (simp add: request_unfold Let_def split: transport.splits)

lemma request_client: "fst (snd (request net endpoint options (c, w))) = c"
  by (simp add: request_unfold Let_def split: transport.splits)



lemma fetched_clearTimeout: "fetched (clearTimeout t w) = fetched w"
  by (simp add: clearTimeout_def)

lemma fetched_catch_block: "fetched (snd (catch_block c t e w)) = fetched w"
  by (simp add: catch_block_def Let_def fetched_clearTimeout)

lemma fetched_after_response: "fetched (snd (after_response c t r w)) = fetched w"
  by (simp add: after_response_def Let_def fetched_catch_block fetched_clearTimeout
      split: body_read.splits sum.splits)

lemma fetched_request:
  "fetched (runtime_after (request net endpoint options (c, w)))
     = fetched w @ [request_call c endpoint options (next_timer w)]"
  unfolding runtime_after_def request_runtime
  by (simp add: Let_def fetched_catch_block fetched_after_response fire_timer_def
      split: transport.splits)

lemma sent_request:
  "sent (request net endpoint options (c, w)) = request_call c endpoint options (next_timer w)"
  by (simp add: sent_def fetched_request)

lemma target_request:
  "target c (sent (request net endpoint options (c, w))) = endpoint"
  by (simp add: sent_request target_def request_call_def)

lemma body_request:
  "body (sent (request net endpoint options (c, w))) = init_body options"
  by (simp add: sent_request request_call_def)

subsection \<open>The parameters of the operations\<close>

lemma retailer_entry_cases:
  "retailer_entry opts =
     (case retailer opts of None \<Rightarrow> [] | Some r \<Rightarrow> if r = [] then [] else [(''retailer'', r)])"
  by (simp add: retailer_entry_def and_entry_def)

lemma format_string_nonempty: "format_string f \<noteq> []"
  by (cases f) simp_all

lemma format_entry_cases:
  "format_entry opts =
     (case format opts of None \<Rightarrow> [] | Some f \<Rightarrow> [(''format'', format_string f)])"
  by (cases "format opts") (simp_all add: format_entry_def and_entry_def format_string_nonempty)

lemma retailer_entry_member:
  "(''retailer'', x) \<in> set (retailer_entry opts) \<longleftrightarrow> retailer opts = Some x \<and> x \<noteq> []"
  by (cases "retailer opts") (auto simp add: retailer_entry_cases)

lemma retailer_entry_no_format: "(''format'', x) \<notin> set (retailer_entry opts)"
  by (cases "retailer opts") (simp_all add: retailer_entry_cases)

lemma format_entry_member:
  "(''format'', x) \<in> set (format_entry opts) \<longleftrightarrow> (\<exists>f. format opts = Some f \<and> x = format_string f)"
  by (cases "format opts") (auto simp add: format_entry_cases)

lemma format_entry_no_retailer: "(''retailer'', x) \<notin> set (format_entry opts)"
  by (cases "format opts") (simp_all add: format_entry_cases)

lemma retailer_entry_no_identifiers:
  "filter (\<lambda>p. fst p = ''identifiers'') (retailer_entry opts) = []"
  by (cases "retailer opts") (simp_all add: retailer_entry_cases)

lemma format_entry_no_identifiers:
  "filter (\<lambda>p. fst p = ''identifiers'') (format_entry opts) = []"
  by (cases "format opts") (simp_all add: format_entry_cases)

lemma getProductDetails_query:
  "sent_query c (getProductDetails net i opts (c, w)) = getProductDetails_params i opts"
  by (simp add: sent_query_def getProductDetails_def target_request query_of_def parse_query_toString)

lemma getProductDetailsBatch_query:
  "sent_query c (getProductDetailsBatch net ids opts (c, w)) = getProductDetailsBatch_params ids opts"
  by (simp add: sent_query_def getProductDetailsBatch_def target_request query_of_def parse_query_toString)

lemma getCurrentOffers_query:
  "sent_query c (getCurrentOffers net i opts (c, w)) = getCurrentOffers_params i opts"
  by (simp add: sent_query_def getCurrentOffers_def target_request query_of_def parse_query_toString)

lemma getCurrentOffersBatch_query:
  "sent_query c (getCurrentOffersBatch net ids opts (c, w)) = getCurrentOffersBatch_params ids opts"
  by (simp add: sent_query_def getCurrentOffersBatch_def target_request query_of_def parse_query_toString)

lemma getPriceHistory_query:
  "sent_query c (getPriceHistory net i a b opts (c, w)) = getPriceHistory_params i a b opts"
  by (simp add: sent_query_def getPriceHistory_def target_request query_of_def parse_query_toString)

lemma getProductDetails_params_eq:
  "getProductDetails_params i opts = (''identifier'', i) # format_entry opts"
  by (simp add: getProductDetails_params_def spread_def format_entry_cases split: option.splits)

lemma getProductDetailsBatch_params_eq:
  "getProductDetailsBatch_params ids opts = (''identifiers'', join '','' ids) # format_entry opts"
  by (simp add: getProductDetailsBatch_params_def spread_def format_entry_cases split: option.splits)

lemma getCurrentOffers_params_eq:
  "getCurrentOffers_params i opts = (''identifier'', i) # retailer_entry opts @ format_entry opts"
  by (simp add: getCurrentOffers_params_def spread_def format_entry_cases retailer_entry_cases
      split: option.splits)

lemma getCurrentOffersBatch_params_eq:
  "getCurrentOffersBatch_params ids opts =
     (''identifiers'', join '','' ids) # retailer_entry opts @ format_entry opts"
  by (simp add: getCurrentOffersBatch_params_def spread_def format_entry_cases retailer_entry_cases
      split: option.splits)

lemma getPriceHistory_params_eq:
  "getPriceHistory_params i a b opts =
     (''identifier'', i) # (''start_date'', a) # (''end_date'', b) # retailer_entry opts @ format_entry opts"
  by (simp add: getPriceHistory_params_def spread_def format_entry_cases retailer_entry_cases
      split: option.splits)

lemma scheduleProductMonitoring_body_eq:
  "scheduleProductMonitoring_body i f opts =
     (''identifier'', i) # (''frequency'', frequency_string f) # retailer_entry opts"
  by (simp add: scheduleProductMonitoring_body_def spread_def retailer_entry_cases
      split: option.splits)

lemma scheduleProductMonitoringBatch_body_eq:
  "scheduleProductMonitoringBatch_body ids f opts =
     (''identifiers'', join '','' ids) # (''frequency'', frequency_string f) # retailer_entry opts"
  by (simp add: scheduleProductMonitoringBatch_body_def spread_def retailer_entry_cases
      split: option.splits)

lemma sent_body_request:
  "sent_body (request net endpoint
       \<lparr>init_method = m, init_body = Some (JSON_stringify (string_object ps)), init_headers = h\<rparr>
       (c, w)) = Some ps"
  by (simp add: sent_body_def body_request parse_string_object_stringify)

lemma scheduleProductMonitoring_sent_body:
  "sent_body (scheduleProductMonitoring net i f opts (c, w))
     = Some (scheduleProductMonitoring_body i f opts)"
  by (simp add: scheduleProductMonitoring_def sent_body_request)

lemma scheduleProductMonitoringBatch_sent_body:
  "sent_body (scheduleProductMonitoringBatch net ids f opts (c, w))
     = Some (scheduleProductMonitoringBatch_body ids f opts)"
  by (simp add: scheduleProductMonitoringBatch_def sent_body_request)

lemma removeProductsFromSchedule_sent_body:
  "sent_body (removeProductsFromSchedule net ids (c, w)) = Some [(''identifiers'', join '','' ids)]"
  by (simp add: removeProductsFromSchedule_def sent_body_request)

subsection \<open>The client is never assigned\<close>

lemma perform_client: "client_after (perform net x (c, w)) = c"
  by (cases x) (simp_all add: client_after_def request_client getProductDetails_def
      getProductDetailsBatch_def getCurrentOffers_def getCurrentOffersBatch_def
      getPriceHistory_def scheduleProductMonitoring_def scheduleProductMonitoringBatch_def
      getScheduledProducts_def removeProductFromSchedule_def removeProductsFromSchedule_def
      getUsage_def)

lemma perform_all_client: "fst (perform_all net xs (c, w)) = c"
proof (induction xs arbitrary: w)
  case Nil
  then show ?case by simp
next
  case (Cons x xs)
  obtain p c' w' where r: "perform net x (c, w) = (p, c', w')"
    by (cases "perform net x (c, w)") auto
  then have "c' = c" using perform_client [of net x c w] by (simp add: client_after_def)
  with r Cons show ?case by simp
qed

section \<open>The claims\<close>

subsection \<open>The constructor validates the key\<close>

text \<open>
  Claim C1. A configuration whose key is absent, or does not have the form
  \<open>ss_(live|test)_<alphanumeric>\<close>, makes the constructor throw an \<open>Error\<close> at
  once; a key of that form makes it return a client. In both cases the host
  is left as it was: no network call is issued and no timer is set.
\<close>

theorem constructor_validates_key:
  "(apiKey cfg = None \<or> (\<exists>k. apiKey cfg = Some k \<and> \<not> key_format k)
      \<longrightarrow> (\<exists>m. constructor cfg w = (Inl (Error m), w)))
   \<and> ((\<exists>k. apiKey cfg = Some k \<and> key_format k)
      \<longrightarrow> (\<exists>c. constructor cfg w = (Inr c, w)))"
proof (cases "apiKey cfg")
  case None
  then show ?thesis by (auto simp add: constructor_def)
next
  case (Some k)
  have "\<not> key_format []" by (simp add: key_format_def)
  then have "k = [] \<Longrightarrow> \<not> key_format k" by simp
  with Some show ?thesis
    by (auto simp add: constructor_def rx_test_apiKey_pattern Let_def)
qed

text \<open>
  The three cases at concrete keys: no key, a key with a wrong prefix, and the
  key \<open>ss_test_abc123\<close>.
\<close>

theorem constructor_validates_key_witness:
  "(\<exists>m. constructor \<lparr>apiKey = None, baseUrl = None, timeout = None\<rparr> fresh_runtime
        = (Inl (Error m), fresh_runtime))
   \<and> \<not> key_format ''sk_live_abc123''
   \<and> (\<exists>m. constructor \<lparr>apiKey = Some ''sk_live_abc123'', baseUrl = None, timeout = None\<rparr>
          fresh_runtime = (Inl (Error m), fresh_runtime))
   \<and> key_format ''ss_test_abc123''
   \<and> (\<exists>c. constructor \<lparr>apiKey = Some ''ss_test_abc123'', baseUrl = None, timeout = None\<rparr>
          fresh_runtime = (Inr c, fresh_runtime))"
proof -
  have bad: "\<not> key_format ''sk_live_abc123''"
    unfolding rx_test_apiKey_pattern [symmetric] by code_simp
  have good: "key_format ''ss_test_abc123''"
    unfolding rx_test_apiKey_pattern [symmetric] by code_simp
  show ?thesis
    using bad good
      constructor_validates_key [of "\<lparr>apiKey = None, baseUrl = None, timeout = None\<rparr>" fresh_runtime]
      constructor_validates_key
        [of "\<lparr>apiKey = Some ''sk_live_abc123'', baseUrl = None, timeout = None\<rparr>" fresh_runtime]
      constructor_validates_key
        [of "\<lparr>apiKey = Some ''ss_test_abc123'', baseUrl = None, timeout = None\<rparr>" fresh_runtime]
    by simp
qed

subsection \<open>The message of an API error\<close>

text \<open>
  Claim C2, as stated, fails in two places. A 404 response whose body is
  \<open>{"error": ""}\<close> is rejected with the message \<open>HTTP 404: Not Found\<close>, not
  with the empty string, since \<open>data.error || ...\<close> falls through on a falsy
  value. A 500 response whose body is the JSON value \<open>null\<close> has no
  \<open>error\<close> field, and is rejected with the \<open>TypeError\<close> of reading a
  property of \<open>null\<close>.
\<close>

theorem request_error_message_counterexample:
  "outcome (request
      (const_network (Responds 10 \<lparr>status = 404, statusText = ''Not Found'',
         payload = Parsed (JObj [(''error'', JStr '''')])\<rparr>))
      ''/usage'' no_init (test_client, fresh_runtime))
     = Rejected (Error ''HTTP 404: Not Found'')
   \<and> outcome (request
      (const_network (Responds 10 \<lparr>status = 500, statusText = ''Internal Server Error'',
         payload = Parsed JNull\<rparr>))
      ''/usage'' no_init (test_client, fresh_runtime))
     = Rejected (JsError ''TypeError'' ''Cannot read properties of null (reading 'error')'')"
proof -
  have n: "nat_to_string 404 = ''404''" by code_simp
  show ?thesis
    by (simp add: outcome_def request_result const_network_def Let_def after_response_def ok_def
        catch_block_def Error_def n timer_due_def test_client_def)
qed

text \<open>
  Claim C2, amended. Let the response (one that arrives before the timer of
  the call is due, so that the call receives it) have a status outside 200 to
  299 and a body that parses as JSON. If \<open>data.error\<close> is a non-empty string \<open>X\<close>, the
  call is rejected with an \<open>Error\<close> whose message is exactly \<open>X\<close>. If
  \<open>data.error\<close> is \<open>undefined\<close> (the body is not \<open>null\<close> and has no such
  field) or the empty string, the message is exactly
  \<open>HTTP <status>: <statusText>\<close>.
\<close>

theorem request_error_message:
  assumes "net (fetched w @ [request_call c endpoint options (next_timer w)]) = Responds t r"
    and "t \<le> timer_due (this_timeout c)"
    and "\<not> (200 \<le> status r \<and> status r \<le> 299)"
    and "payload r = Parsed data"
  shows "(get_error data = Inr (Some (JStr X)) \<and> X \<noteq> [] \<longrightarrow>
            outcome (request net endpoint options (c, w)) = Rejected (Error X))
       \<and> (get_error data = Inr None \<or> get_error data = Inr (Some (JStr [])) \<longrightarrow>
            outcome (request net endpoint options (c, w)) =
              Rejected (Error (''HTTP '' @ nat_to_string (status r) @ '': '' @ statusText r)))"
  unfolding outcome_def request_result using assms
  by (auto simp add: Let_def after_response_def ok_def catch_block_def Error_def)

text \<open>
  A 404 with \<open>{"error": "Product not found"}\<close>, and a 404 without the field.
\<close>

theorem request_error_message_witness:
  "outcome (request
      (const_network (Responds 10 \<lparr>status = 404, statusText = ''Not Found'',
         payload = Parsed (JObj [(''error'', JStr ''Product not found'')])\<rparr>))
      ''/usage'' no_init (test_client, fresh_runtime))
     = Rejected (Error ''Product not found'')
   \<and> outcome (request
      (const_network (Responds 10 \<lparr>status = 404, statusText = ''Not Found'',
         payload = Parsed (JObj [(''message'', JStr ''gone'')])\<rparr>))
      ''/usage'' no_init (test_client, fresh_runtime))
     = Rejected (Error ''HTTP 404: Not Found'')"
proof -
  let ?r1 = "\<lparr>status = 404, statusText = ''Not Found'',
         payload = Parsed (JObj [(''error'', JStr ''Product not found'')])\<rparr>"
  let ?r2 = "\<lparr>status = 404, statusText = ''Not Found'',
         payload = Parsed (JObj [(''message'', JStr ''gone'')])\<rparr>"
  have n: "nat_to_string 404 = ''404''" by code_simp
  show ?thesis
    using request_error_message [where net = "const_network (Responds 10 ?r1)"
          and w = fresh_runtime and c = test_client and endpoint = "''/usage''"
          and options = no_init and t = 10 and r = ?r1
          and data = "JObj [(''error'', JStr ''Product not found'')]"
          and X = "''Product not found''"]
      request_error_message [where net = "const_network (Responds 10 ?r2)"
          and w = fresh_runtime and c = test_client and endpoint = "''/usage''"
          and options = no_init and t = 10 and r = ?r2
          and data = "JObj [(''message'', JStr ''gone'')]" and X = "[]"]
    by (simp add: const_network_def n timer_due_def test_client_def)
qed

subsection \<open>The timeout\<close>




subsection \<open>The envelope of a successful exchange\<close>

text \<open>
  Claim C4. A response (one that arrives before the timer of the call is
  due, so that the call receives it) with a status from 200 to 299 whose body
  parses as JSON resolves the call with the parsed value itself, whatever it is; its
  \<open>success\<close> field is not looked at.
\<close>

theorem request_resolves_verbatim:
  assumes "net (fetched w @ [request_call c endpoint options (next_timer w)]) = Responds t r"
    and "t \<le> timer_due (this_timeout c)"
    and "200 \<le> status r \<and> status r \<le> 299"
    and "payload r = Parsed data"
  shows "outcome (request net endpoint options (c, w)) = Resolved data"
  unfolding outcome_def request_result using assms
  by (simp add: Let_def after_response_def ok_def)

text \<open>
  A 200 response with \<open>success: false\<close> resolves with that envelope.
\<close>

theorem request_resolves_verbatim_witness:
  "outcome (request
      (const_network (Responds 10 \<lparr>status = 200, statusText = ''OK'',
         payload = Parsed (JObj [(''success'', JBool False), (''data'', JNull)])\<rparr>))
      ''/usage'' no_init (test_client, fresh_runtime))
     = Resolved (JObj [(''success'', JBool False), (''data'', JNull)])"
proof -
  let ?r = "\<lparr>status = 200, statusText = ''OK'',
         payload = Parsed (JObj [(''success'', JBool False), (''data'', JNull)])\<rparr>"
  show ?thesis
    using request_resolves_verbatim [where net = "const_network (Responds 10 ?r)"
        and w = fresh_runtime and c = test_client and endpoint = "''/usage''"
        and options = no_init and t = 10 and r = ?r
        and data = "JObj [(''success'', JBool False), (''data'', JNull)]"]
    by (simp add: const_network_def timer_due_def test_client_def)
qed

subsection \<open>Inclusion of optional parameters\<close>

text \<open>
  Claim C5, as stated, fails: the options are tested for truthiness
  (\<open>options.retailer && {...}\<close>), not for presence. A caller who passes the
  empty string as \<open>retailer\<close> gets the request of a caller who passes none,
  in the query string and in the body.
\<close>

theorem optional_parameters_counterexample:
  "url (sent (getCurrentOffers (const_network Stalls) ''012345678901''
          \<lparr>retailer = Some '''', format = None\<rparr> (test_client, fresh_runtime)))
     = ''https://api.shopsavvy.com/v1/products/offers?identifier=012345678901''
   \<and> sent_body (scheduleProductMonitoring (const_network Stalls) ''012345678901'' Daily
          \<lparr>retailer = Some '''', format = None\<rparr> (test_client, fresh_runtime))
     = Some [(''identifier'', ''012345678901''), (''frequency'', ''daily'')]"
  by code_simp

text \<open>
  Claim C5, amended. In every operation that takes options, the key
  \<open>retailer\<close> is in the query string (or in the body object) with the value
  \<open>v\<close> exactly when the caller passed \<open>v\<close> as \<open>retailer\<close> and \<open>v\<close> is not
  the empty string; the key \<open>format\<close> is there exactly when the caller passed
  a format, with that format as value.
\<close>

theorem optional_parameters_truthy:
  "((''format'', v) \<in> set (sent_query c (getProductDetails net i opts (c, w)))
      \<longleftrightarrow> (\<exists>f. format opts = Some f \<and> v = format_string f))
   \<and> ((''format'', v) \<in> set (sent_query c (getProductDetailsBatch net ids opts (c, w)))
      \<longleftrightarrow> (\<exists>f. format opts = Some f \<and> v = format_string f))
   \<and> ((''retailer'', v) \<in> set (sent_query c (getCurrentOffers net i opts (c, w)))
      \<longleftrightarrow> retailer opts = Some v \<and> v \<noteq> [])
   \<and> ((''format'', v) \<in> set (sent_query c (getCurrentOffers net i opts (c, w)))
      \<longleftrightarrow> (\<exists>f. format opts = Some f \<and> v = format_string f))
   \<and> ((''retailer'', v) \<in> set (sent_query c (getCurrentOffersBatch net ids opts (c, w)))
      \<longleftrightarrow> retailer opts = Some v \<and> v \<noteq> [])
   \<and> ((''format'', v) \<in> set (sent_query c (getCurrentOffersBatch net ids opts (c, w)))
      \<longleftrightarrow> (\<exists>f. format opts = Some f \<and> v = format_string f))
   \<and> ((''retailer'', v) \<in> set (sent_query c (getPriceHistory net i a b opts (c, w)))
      \<longleftrightarrow> retailer opts = Some v \<and> v \<noteq> [])
   \<and> ((''format'', v) \<in> set (sent_query c (getPriceHistory net i a b opts (c, w)))
      \<longleftrightarrow> (\<exists>f. format opts = Some f \<and> v = format_string f))
   \<and> (\<exists>obj. sent_body (scheduleProductMonitoring net i fr opts (c, w)) = Some obj
         \<and> (\<forall>x. (''retailer'', x) \<in> set obj \<longleftrightarrow> retailer opts = Some x \<and> x \<noteq> []))
   \<and> (\<exists>obj. sent_body (scheduleProductMonitoringBatch net ids fr opts (c, w)) = Some obj
         \<and> (\<forall>x. (''retailer'', x) \<in> set obj \<longleftrightarrow> retailer opts = Some x \<and> x \<noteq> []))"
proof -
  note r = retailer_entry_member retailer_entry_no_format
  note f = format_entry_member format_entry_no_retailer
  have 1: "(''format'', v) \<in> set (sent_query c (getProductDetails net i opts (c, w)))
      \<longleftrightarrow> (\<exists>f. format opts = Some f \<and> v = format_string f)"
    by (simp add: getProductDetails_query getProductDetails_params_eq f)
  have 2: "(''format'', v) \<in> set (sent_query c (getProductDetailsBatch net ids opts (c, w)))
      \<longleftrightarrow> (\<exists>f. format opts = Some f \<and> v = format_string f)"
    by (simp add: getProductDetailsBatch_query getProductDetailsBatch_params_eq f)
  have 3: "(''retailer'', v) \<in> set (sent_query c (getCurrentOffers net i opts (c, w)))
      \<longleftrightarrow> retailer opts = Some v \<and> v \<noteq> []"
    by (simp add: getCurrentOffers_query getCurrentOffers_params_eq r f)
  have 4: "(''format'', v) \<in> set (sent_query c (getCurrentOffers net i opts (c, w)))
      \<longleftrightarrow> (\<exists>f. format opts = Some f \<and> v = format_string f)"
    by (simp add: getCurrentOffers_query getCurrentOffers_params_eq r f)
  have 5: "(''retailer'', v) \<in> set (sent_query c (getCurrentOffersBatch net ids opts (c, w)))
      \<longleftrightarrow> retailer opts = Some v \<and> v \<noteq> []"
    by (simp add: getCurrentOffersBatch_query getCurrentOffersBatch_params_eq r f)
  have 6: "(''format'', v) \<in> set (sent_query c (getCurrentOffersBatch net ids opts (c, w)))
      \<longleftrightarrow> (\<exists>f. format opts = Some f \<and> v = format_string f)"
    by (simp add: getCurrentOffersBatch_query getCurrentOffersBatch_params_eq r f)
  have 7: "(''retailer'', v) \<in> set (sent_query c (getPriceHistory net i a b opts (c, w)))
      \<longleftrightarrow> retailer opts = Some v \<and> v \<noteq> []"
    by (simp add: getPriceHistory_query getPriceHistory_params_eq r f)
  have 8: "(''format'', v) \<in> set (sent_query c (getPriceHistory net i a b opts (c, w)))
      \<longleftrightarrow> (\<exists>f. format opts = Some f \<and> v = format_string f)"
    by (simp add: getPriceHistory_query getPriceHistory_params_eq r f)
  have 9: "\<exists>obj. sent_body (scheduleProductMonitoring net i fr opts (c, w)) = Some obj
         \<and> (\<forall>x. (''retailer'', x) \<in> set obj \<longleftrightarrow> retailer opts = Some x \<and> x \<noteq> [])"
    by (intro exI [of _ "scheduleProductMonitoring_body i fr opts"] conjI,
        rule scheduleProductMonitoring_sent_body)
      (simp add: scheduleProductMonitoring_body_eq r)
  have 10: "\<exists>obj. sent_body (scheduleProductMonitoringBatch net ids fr opts (c, w)) = Some obj
         \<and> (\<forall>x. (''retailer'', x) \<in> set obj \<longleftrightarrow> retailer opts = Some x \<and> x \<noteq> [])"
    by (intro exI [of _ "scheduleProductMonitoringBatch_body ids fr opts"] conjI,
        rule scheduleProductMonitoringBatch_sent_body)
      (simp add: scheduleProductMonitoringBatch_body_eq r)
  from 1 2 3 4 5 6 7 8 9 10 show ?thesis by (intro conjI)
qed

text \<open>
  A supplied retailer \<open>amazon\<close> is sent; a supplied empty retailer is not.
\<close>

theorem optional_parameters_truthy_witness:
  "(''retailer'', ''amazon'')
     \<in> set (sent_query test_client (getCurrentOffers (const_network Stalls) ''012345678901''
          \<lparr>retailer = Some ''amazon'', format = None\<rparr> (test_client, fresh_runtime)))
   \<and> (''retailer'', '''')
     \<notin> set (sent_query test_client (getCurrentOffers (const_network Stalls) ''012345678901''
          \<lparr>retailer = Some '''', format = None\<rparr> (test_client, fresh_runtime)))"
  using optional_parameters_truthy [where v = "''amazon''" and c = test_client
      and net = "const_network Stalls" and i = "''012345678901''"
      and opts = "\<lparr>retailer = Some ''amazon'', format = None\<rparr>" and w = fresh_runtime]
    optional_parameters_truthy [where v = "''''" and c = test_client
      and net = "const_network Stalls" and i = "''012345678901''"
      and opts = "\<lparr>retailer = Some '''', format = None\<rparr>" and w = fresh_runtime]
  by simp

subsection \<open>The query of a single-identifier call\<close>

text \<open>
  Claim C6, as stated, fails for the same reason: a price-history call whose
  \<open>retailer\<close> option is explicitly the empty string sends no \<open>retailer\<close>
  key.
\<close>

theorem single_identifier_query_counterexample:
  "url (sent (getPriceHistory (const_network Stalls) ''012345678901'' ''2024-01-01'' ''2024-01-31''
          \<lparr>retailer = Some '''', format = Some FormatCsv\<rparr> (test_client, fresh_runtime)))
     = ''https://api.shopsavvy.com/v1/products/history?identifier=012345678901&start_date=2024-01-01&end_date=2024-01-31&format=csv''"
  by code_simp

text \<open>
  Claim C6, amended. The query string of a single-identifier call, parsed,
  is: the key \<open>identifier\<close> once, with the identifier passed; for the price
  history, the two dates; then \<open>retailer\<close> if the caller passed a non-empty
  one, and \<open>format\<close> if the caller passed one; and nothing else.
\<close>

theorem single_identifier_query:
  "sent_query c (getProductDetails net i opts (c, w))
     = (''identifier'', i)
       # (case format opts of None \<Rightarrow> [] | Some f \<Rightarrow> [(''format'', format_string f)])
   \<and> sent_query c (getCurrentOffers net i opts (c, w))
     = (''identifier'', i)
       # (case retailer opts of None \<Rightarrow> [] | Some r \<Rightarrow> if r = [] then [] else [(''retailer'', r)])
       @ (case format opts of None \<Rightarrow> [] | Some f \<Rightarrow> [(''format'', format_string f)])
   \<and> sent_query c (getPriceHistory net i a b opts (c, w))
     = (''identifier'', i) # (''start_date'', a) # (''end_date'', b)
       # (case retailer opts of None \<Rightarrow> [] | Some r \<Rightarrow> if r = [] then [] else [(''retailer'', r)])
       @ (case format opts of None \<Rightarrow> [] | Some f \<Rightarrow> [(''format'', format_string f)])"
  by (simp add: getProductDetails_query getProductDetails_params_eq
      getCurrentOffers_query getCurrentOffers_params_eq
      getPriceHistory_query getPriceHistory_params_eq
      retailer_entry_cases format_entry_cases)

text \<open>
  A call with both options, and a call with none.
\<close>

theorem single_identifier_query_witness:
  "sent_query test_client (getCurrentOffers (const_network Stalls) ''012345678901''
      \<lparr>retailer = Some ''amazon'', format = Some FormatCsv\<rparr> (test_client, fresh_runtime))
     = [(''identifier'', ''012345678901''), (''retailer'', ''amazon''), (''format'', ''csv'')]
   \<and> sent_query test_client (getProductDetails (const_network Stalls) ''012345678901''
      no_options (test_client, fresh_runtime))
     = [(''identifier'', ''012345678901'')]"
  using single_identifier_query [where c = test_client and net = "const_network Stalls"
      and i = "''012345678901''" and w = fresh_runtime
      and opts = "\<lparr>retailer = Some ''amazon'', format = Some FormatCsv\<rparr>"]
    single_identifier_query [where c = test_client and net = "const_network Stalls"
      and i = "''012345678901''" and w = fresh_runtime and opts = no_options]
  by (simp add: no_options_def)

subsection \<open>The identifiers of a batch call\<close>

text \<open>
  Claim C7. In every batch call the key \<open>identifiers\<close> occurs once, in the
  query string of the two GET calls and in the body object of the POST and
  DELETE calls, and its value is the comma-join of the identifiers in their
  order. For a non-empty list of identifiers without commas, splitting that
  value at the commas gives the list back.
\<close>

theorem batch_identifiers_joined:
  "filter (\<lambda>p. fst p = ''identifiers'') (sent_query c (getProductDetailsBatch net ids opts (c, w)))
     = [(''identifiers'', join '','' ids)]
   \<and> filter (\<lambda>p. fst p = ''identifiers'') (sent_query c (getCurrentOffersBatch net ids opts (c, w)))
     = [(''identifiers'', join '','' ids)]
   \<and> (\<exists>obj. sent_body (scheduleProductMonitoringBatch net ids fr opts (c, w)) = Some obj
         \<and> filter (\<lambda>p. fst p = ''identifiers'') obj = [(''identifiers'', join '','' ids)])
   \<and> (\<exists>obj. sent_body (removeProductsFromSchedule net ids (c, w)) = Some obj
         \<and> filter (\<lambda>p. fst p = ''identifiers'') obj = [(''identifiers'', join '','' ids)])
   \<and> (ids \<noteq> [] \<and> (\<forall>i\<in>set ids. CHR '','' \<notin> set i) \<longrightarrow> split_on CHR '','' (join '','' ids) = ids)"
proof -
  note r = retailer_entry_no_identifiers
  note f = format_entry_no_identifiers
  have 1: "filter (\<lambda>p. fst p = ''identifiers'') (sent_query c (getProductDetailsBatch net ids opts (c, w)))
     = [(''identifiers'', join '','' ids)]"
    by (simp add: getProductDetailsBatch_query getProductDetailsBatch_params_eq r f)
  have 2: "filter (\<lambda>p. fst p = ''identifiers'') (sent_query c (getCurrentOffersBatch net ids opts (c, w)))
     = [(''identifiers'', join '','' ids)]"
    by (simp add: getCurrentOffersBatch_query getCurrentOffersBatch_params_eq r f)
  have 3: "\<exists>obj. sent_body (scheduleProductMonitoringBatch net ids fr opts (c, w)) = Some obj
         \<and> filter (\<lambda>p. fst p = ''identifiers'') obj = [(''identifiers'', join '','' ids)]"
    by (intro exI [of _ "scheduleProductMonitoringBatch_body ids fr opts"] conjI,
        rule scheduleProductMonitoringBatch_sent_body)
      (simp add: scheduleProductMonitoringBatch_body_eq r)
  have 4: "\<exists>obj. sent_body (removeProductsFromSchedule net ids (c, w)) = Some obj
         \<and> filter (\<lambda>p. fst p = ''identifiers'') obj = [(''identifiers'', join '','' ids)]"
    by (rule exI [of _ "[(''identifiers'', join '','' ids)]"])
      (simp add: removeProductsFromSchedule_sent_body)
  have 5: "ids \<noteq> [] \<and> (\<forall>i\<in>set ids. CHR '','' \<notin> set i) \<longrightarrow> split_on CHR '','' (join '','' ids) = ids"
    using split_on_join [of ids "CHR '',''"] by simp
  from 1 2 3 4 5 show ?thesis by (intro conjI)
qed

text \<open>
  Two identifiers: the address sent, its parsed query, and the split.
\<close>

theorem batch_identifiers_joined_witness:
  "url (sent (getProductDetailsBatch (const_network Stalls) [''012345678901'', ''B08N5WRWNW'']
          no_options (test_client, fresh_runtime)))
     = ''https://api.shopsavvy.com/v1/products/details?identifiers=012345678901%2CB08N5WRWNW''
   \<and> sent_query test_client (getProductDetailsBatch (const_network Stalls)
          [''012345678901'', ''B08N5WRWNW''] no_options (test_client, fresh_runtime))
     = [(''identifiers'', ''012345678901,B08N5WRWNW'')]
   \<and> split_on CHR '','' ''012345678901,B08N5WRWNW'' = [''012345678901'', ''B08N5WRWNW'']"
proof -
  have u: "url (sent (getProductDetailsBatch (const_network Stalls) [''012345678901'', ''B08N5WRWNW'']
          no_options (test_client, fresh_runtime)))
     = ''https://api.shopsavvy.com/v1/products/details?identifiers=012345678901%2CB08N5WRWNW''"
    by code_simp
  have q: "sent_query test_client (getProductDetailsBatch (const_network Stalls)
          [''012345678901'', ''B08N5WRWNW''] no_options (test_client, fresh_runtime))
     = [(''identifiers'', ''012345678901,B08N5WRWNW'')]"
    by (simp add: getProductDetailsBatch_query getProductDetailsBatch_params_eq
        format_entry_cases no_options_def)
  show ?thesis
    using u q batch_identifiers_joined [of test_client "const_network Stalls"
        "[''012345678901'', ''B08N5WRWNW'']" no_options fresh_runtime Daily]
    by simp
qed

subsection \<open>The timer is cleared on every path\<close>

text \<open>
  Claim C8. Whatever the transport does (a response of any status, with a
  body that parses, fails to parse or never arrives; a network error; no
  answer within the delay), \<open>clearTimeout\<close> has been called on the timer of
  the call, and the pending timers after the call are those of before it
  without that timer.
\<close>

theorem request_clears_timer:
  "next_timer w \<in> set (cleared (runtime_after (request net endpoint options (c, w))))
   \<and> timers (runtime_after (request net endpoint options (c, w)))
       = filter (\<lambda>p. fst p \<noteq> next_timer w) (timers w)"
  unfolding runtime_after_def request_runtime
  by (simp add: Let_def catch_block_timers after_response_timers
      catch_block_cleared after_response_cleared fire_timer_def split: transport.splits)

text \<open>
  A network failure on a host with no other timer.
\<close>

theorem request_clears_timer_witness:
  "0 \<in> set (cleared (runtime_after (request
        (const_network (Fails 5 (JsError ''TypeError'' ''fetch failed'')))
        ''/usage'' no_init (test_client, fresh_runtime))))
   \<and> timers (runtime_after (request
        (const_network (Fails 5 (JsError ''TypeError'' ''fetch failed'')))
        ''/usage'' no_init (test_client, fresh_runtime))) = []"
  using request_clears_timer [where w = fresh_runtime and c = test_client
      and net = "const_network (Fails 5 (JsError ''TypeError'' ''fetch failed''))"
      and endpoint = "''/usage''" and options = no_init]
  by (simp add: fresh_runtime_def)

subsection \<open>The configuration is stored and never changed\<close>

text \<open>
  Claim C9, as stated, fails for a supplied value that is falsy: with the
  timeout 0 and the empty base address the constructor stores 30000 and the
  production endpoint, not the values supplied.
\<close>

theorem constructor_stores_config_counterexample:
  "constructor \<lparr>apiKey = Some ''ss_test_abc123'', baseUrl = Some '''', timeout = Some 0\<rparr>
       fresh_runtime
     = (Inr \<lparr>this_apiKey = ''ss_test_abc123'',
             this_baseUrl = ''https://api.shopsavvy.com/v1'',
             this_timeout = 30000\<rparr>, fresh_runtime)"
  by code_simp

text \<open>
  Claim C9, amended. With a valid key the constructor stores the key, the
  base address (the production endpoint when none or the empty string is
  supplied) and the timeout (30000 when none or 0 is supplied), and no public
  operation, nor any sequence of them, changes the client.
\<close>

theorem constructor_stores_config:
  assumes "apiKey cfg = Some k" and "key_format k"
  shows "\<exists>c. constructor cfg w = (Inr c, w)
           \<and> this_apiKey c = k
           \<and> this_baseUrl c = (case baseUrl cfg of None \<Rightarrow> ''https://api.shopsavvy.com/v1''
                               | Some b \<Rightarrow> if b = [] then ''https://api.shopsavvy.com/v1'' else b)
           \<and> this_timeout c = (case timeout cfg of None \<Rightarrow> 30000
                               | Some t \<Rightarrow> if t = 0 then 30000 else t)
           \<and> (\<forall>net x w'. client_after (perform net x (c, w')) = c)
           \<and> (\<forall>net xs w'. fst (perform_all net xs (c, w')) = c)"
proof -
  have "k \<noteq> []" using assms(2) by (auto simp: key_format_def)
  then show ?thesis using assms
    by (simp add: constructor_def rx_test_apiKey_pattern or_string_def or_number_def
        production_endpoint_def perform_client perform_all_client)
qed

text \<open>
  A key with a base address of its own and no timeout.
\<close>

theorem constructor_stores_config_witness:
  "key_format ''ss_live_Key42''
   \<and> (\<exists>c. constructor \<lparr>apiKey = Some ''ss_live_Key42'', baseUrl = Some ''http://localhost:8080'',
               timeout = None\<rparr> fresh_runtime = (Inr c, fresh_runtime)
          \<and> this_apiKey c = ''ss_live_Key42''
          \<and> this_baseUrl c = ''http://localhost:8080''
          \<and> this_timeout c = 30000
          \<and> fst (perform_all (const_network Stalls) [GetUsage, GetScheduledProducts] (c, fresh_runtime)) = c)"
proof -
  let ?cfg = "\<lparr>apiKey = Some ''ss_live_Key42'', baseUrl = Some ''http://localhost:8080'',
               timeout = None\<rparr>"
  have good: "key_format ''ss_live_Key42''"
    unfolding rx_test_apiKey_pattern [symmetric] by code_simp
  have key: "apiKey ?cfg = Some ''ss_live_Key42''" by simp
  from constructor_stores_config [OF key good, of fresh_runtime]
  obtain c where c: "constructor ?cfg fresh_runtime = (Inr c, fresh_runtime)"
    "this_apiKey c = ''ss_live_Key42''"
    "this_baseUrl c = (case baseUrl ?cfg of None \<Rightarrow> ''https://api.shopsavvy.com/v1''
                               | Some b \<Rightarrow> if b = [] then ''https://api.shopsavvy.com/v1'' else b)"
    "this_timeout c = (case timeout ?cfg of None \<Rightarrow> 30000
                               | Some t \<Rightarrow> if t = 0 then 30000 else t)"
    "\<forall>net xs w'. fst (perform_all net xs (c, w')) = c"
    by blast
  have "this_baseUrl c = ''http://localhost:8080''" "this_timeout c = 30000"
    using c(3,4) by simp_all
  moreover have "fst (perform_all (const_network Stalls) [GetUsage, GetScheduledProducts]
      (c, fresh_runtime)) = c"
    using c(5) by blast
  ultimately show ?thesis using good c(1,2) by blast
qed

subsection \<open>Falsy configuration values\<close>



end
